theory Spec2Isabelle
  imports Main "HOL-Library.Sublist"
begin

section \<open>JavaScript strings\<close>

text \<open>
  Strings are character lists. The helpers follow the JavaScript string methods that
  \<^verbatim>\<open>deploy.ts\<close> calls: \<^verbatim>\<open>indexOf\<close> and \<^verbatim>\<open>lastIndexOf\<close> answer \<open>-1\<close> when the
  character is absent, and \<^verbatim>\<open>slice\<close> counts a negative index from the end.
\<close>

fun indexOf :: "string \<Rightarrow> char \<Rightarrow> int" where
  "indexOf [] c = -1"
| "indexOf (x # xs) c =
     (if x = c then 0 else (let i = indexOf xs c in if i < 0 then -1 else i + 1))"

definition lastIndexOf :: "string \<Rightarrow> char \<Rightarrow> int" where
  "lastIndexOf s c =
     (let i = indexOf (rev s) c in if i < 0 then -1 else int (length s) - 1 - i)"

definition clampIndex :: "nat \<Rightarrow> int \<Rightarrow> nat" where
  "clampIndex len i = (if i < 0 then nat (max (int len + i) 0) else min (nat i) len)"

definition slice :: "string \<Rightarrow> int \<Rightarrow> int \<Rightarrow> string" where
  "slice s b e =
     (let lo = clampIndex (length s) b; hi = clampIndex (length s) e
      in take (hi - lo) (drop lo s))"

definition sliceFrom :: "string \<Rightarrow> int \<Rightarrow> string" where
  "sliceFrom s b = drop (clampIndex (length s) b) s"

definition startsWith :: "string \<Rightarrow> string \<Rightarrow> bool" where
  "startsWith s p = (take (length p) s = p)"

definition endsWith :: "string \<Rightarrow> string \<Rightarrow> bool" where
  "endsWith s p = (length p \<le> length s \<and> drop (length s - length p) s = p)"

text \<open>
  An optional string is \<^verbatim>\<open>string | undefined\<close>. It is truthy when it is present and
  not empty; a template literal renders \<^verbatim>\<open>undefined\<close> by its name.
\<close>

definition truthy :: "string option \<Rightarrow> bool" where
  "truthy x = (case x of None \<Rightarrow> False | Some s \<Rightarrow> s \<noteq> [])"

definition render :: "string option \<Rightarrow> string" where
  "render x = (case x of None \<Rightarrow> ''undefined'' | Some s \<Rightarrow> s)"

section \<open>The POSIX path functions of the platform\<close>

text \<open>
  \<^verbatim>\<open>deploy.ts\<close> imports Node's \<^verbatim>\<open>path\<close> module. The functions below follow its
  POSIX implementation: \<^verbatim>\<open>normalizeString\<close> drops empty and \<^verbatim>\<open>.\<close> segments and
  resolves \<^verbatim>\<open>..\<close>; \<^verbatim>\<open>resolve\<close> makes a path absolute against the working directory;
  \<^verbatim>\<open>relative\<close> strips the common leading segments; \<^verbatim>\<open>join\<close> concatenates and
  normalises; \<^verbatim>\<open>dirname\<close> and \<^verbatim>\<open>parse(...).name\<close> scan from the right, ignoring
  trailing separators. The working directory \<open>cwd\<close> is a parameter.
\<close>

fun splitOn :: "char \<Rightarrow> string \<Rightarrow> string list" where
  "splitOn c [] = [[]]"
| "splitOn c (x # xs) =
     (if x = c then [] # splitOn c xs
      else (case splitOn c xs of [] \<Rightarrow> [[x]] | seg # segs \<Rightarrow> (x # seg) # segs))"

fun joinSegs :: "string list \<Rightarrow> string" where
  "joinSegs [] = []"
| "joinSegs [seg] = seg"
| "joinSegs (seg # segs) = seg @ ''/'' @ joinSegs segs"

fun normalizeSegs :: "bool \<Rightarrow> string list \<Rightarrow> string list \<Rightarrow> string list" where
  "normalizeSegs allowAboveRoot acc [] = rev acc"
| "normalizeSegs allowAboveRoot acc (seg # segs) =
     (if seg = [] \<or> seg = ''.'' then normalizeSegs allowAboveRoot acc segs
      else if seg = ''..'' then
        (case acc of
           [] \<Rightarrow> normalizeSegs allowAboveRoot (if allowAboveRoot then [''..''] else []) segs
         | a # acc' \<Rightarrow>
             if a = ''..''
             then normalizeSegs allowAboveRoot (if allowAboveRoot then ''..'' # acc else acc) segs
             else normalizeSegs allowAboveRoot acc' segs)
      else normalizeSegs allowAboveRoot (seg # acc) segs)"

definition normalizeString :: "string \<Rightarrow> bool \<Rightarrow> string" where
  "normalizeString p allowAboveRoot =
     joinSegs (normalizeSegs allowAboveRoot [] (splitOn CHR ''/'' p))"

definition posixAbsolute :: "string \<Rightarrow> bool" where
  "posixAbsolute p = (case p of [] \<Rightarrow> False | c # _ \<Rightarrow> c = CHR ''/'')"



definition resolve :: "string \<Rightarrow> string \<Rightarrow> string \<Rightarrow> string" where
  "resolve cwd a b =
     (let p = (if posixAbsolute b then b
               else if posixAbsolute a then a @ ''/'' @ b
               else cwd @ ''/'' @ a @ ''/'' @ b)
      in ''/'' @ normalizeString p False)"

fun dropCommon :: "string list \<Rightarrow> string list \<Rightarrow> string list \<times> string list" where
  "dropCommon (x # xs) (y # ys) = (if x = y then dropCommon xs ys else (x # xs, y # ys))"
| "dropCommon xs ys = (xs, ys)"

definition relative :: "string \<Rightarrow> string \<Rightarrow> string \<Rightarrow> string" where
  "relative cwd a b =
     (if a = b then []
      else
        (let fromSegs = normalizeSegs False [] (splitOn CHR ''/'' (resolve cwd [] a));
             toSegs = normalizeSegs False [] (splitOn CHR ''/'' (resolve cwd [] b))
         in case dropCommon fromSegs toSegs of
              (fs, ts) \<Rightarrow> joinSegs (replicate (length fs) ''..'' @ ts)))"




section \<open>Module resolution against the virtual filesystem\<close>









section \<open>Warning triage\<close>

text \<open>
  A warning or error of the bundling engine, with the fields that \<^verbatim>\<open>onwarn\<close> and
  \<^verbatim>\<open>handleRollupError\<close> read. \<open>moduleId\<close> is the field \<^verbatim>\<open>id\<close>; \<open>asString\<close> is what
  \<^verbatim>\<open>String(err)\<close> gives, used when \<^verbatim>\<open>err.message\<close> is empty.
\<close>

record loc =
  locFile :: "string option"
  line :: nat
  column :: nat

record RollupWarning =
  code :: "string option"
  message :: string
  name :: "string option"
  plugin :: "string option"
  url :: "string option"
  loc :: "loc option"
  moduleId :: "string option"
  frame :: "string option"
  source :: "string option"
  importer :: "string option"
  asString :: string

fun showNat :: "nat \<Rightarrow> string" where
  "showNat n =
     (if n < 10 then [char_of (48 + n)]
      else showNat (n div 10) @ [char_of (48 + n mod 10)])"

declare showNat.simps [simp del]

definition isLetter :: "char \<Rightarrow> bool" where
  "isLetter c =
     (let n = (of_char c :: nat) in (65 \<le> n \<and> n \<le> 90) \<or> (97 \<le> n \<and> n \<le> 122))"

definition isSep :: "char \<Rightarrow> bool" where
  "isSep c = (c = CHR 0x5C \<or> c = CHR ''|'' \<or> c = CHR ''/'')"

text \<open>
  The regular expression \<^verbatim>\<open>/^(?:\/|(?:[A-Za-z]:)?[\\|/])/\<close> and \<^verbatim>\<open>relativeId\<close> (lines 98 to 106).
\<close>

fun isAbsolute :: "string \<Rightarrow> bool" where
  "isAbsolute [] = False"
| "isAbsolute [c] = isSep c"
| "isAbsolute [c, d] = isSep c"
| "isAbsolute (c # d # e # _) = (isSep c \<or> (isLetter c \<and> d = CHR '':'' \<and> isSep e))"

definition relativeId :: "string \<Rightarrow> string option \<Rightarrow> string option" where
  "relativeId cwd x =
     (case x of
        None \<Rightarrow> None
      | Some p \<Rightarrow> if \<not> isAbsolute p then Some p else Some (relative cwd cwd p))"

text \<open>
  \<^verbatim>\<open>handleRollupError\<close> (lines 110 to 136) prints to standard error and, when \<open>fatal\<close>, ends the process
  with status 1. The result is the lines printed (without the terminal styling) and the
  exit status, if the process was ended.
\<close>

definition handleRollupError :: "string \<Rightarrow> RollupWarning \<Rightarrow> bool \<Rightarrow> string list \<times> nat option" where
  "handleRollupError cwd err fatal =
     (let description = (if message err \<noteq> [] then message err else asString err);
          described = (if truthy (name err) then render (name err) @ '': '' @ description
                       else description);
          msg = (if truthy (plugin err) then ''(plugin '' @ render (plugin err) @ '') '' @ described
                 else described);
          urlLines = (if truthy (url err) then [render (url err)] else []);
          locLines =
            (case loc err of
               Some l \<Rightarrow>
                 [render (relativeId cwd (if truthy (locFile l) then locFile l else moduleId err)) @
                  '' ('' @ showNat (line l) @ '':'' @ showNat (column l) @ '')'']
             | None \<Rightarrow>
                 if truthy (moduleId err) then [render (relativeId cwd (moduleId err))] else []);
          frameLines = (if truthy (frame err) then [render (frame err)] else [])
      in ([''[!] '' @ msg] @ urlLines @ locLines @ frameLines @ [[]],
          if fatal then Some 1 else None))"

text \<open>
  The \<^verbatim>\<open>onwarn\<close> callback (lines 34 to 55 and 415 to 436), which the configuration pass and the analysis pass both
  install with the same text.
\<close>

definition onwarn :: "string \<Rightarrow> RollupWarning \<Rightarrow> string list \<times> nat option" where
  "onwarn cwd warning =
     (if code warning = Some ''CIRCULAR_DEPENDENCY'' \<or> code warning = Some ''THIS_IS_UNDEFINED''
      then ([], None)
      else if code warning = Some ''NON_EXISTENT_EXPORT''
      then handleRollupError cwd warning True
      else if code warning = Some ''UNRESOLVED_IMPORT''
      then handleRollupError cwd
             (warning\<lparr>message := [CHR 0x27] @ render (source warning) @ [CHR 0x27] @
                '' is imported by '' @ render (importer warning) @
                '', but could not be resolved''\<rparr>) True
      else handleRollupError cwd
             (warning\<lparr>message := ''Rollup Bundler Warning: '' @ message warning\<rparr>) False)"

fun runWarnings :: "string \<Rightarrow> RollupWarning list \<Rightarrow> string list \<times> nat option" where
  "runWarnings cwd [] = ([], None)"
| "runWarnings cwd (w # ws) =
     (case onwarn cwd w of
        (ls, Some status) \<Rightarrow> (ls, Some status)
      | (ls, None) \<Rightarrow> (case runWarnings cwd ws of (ls', r) \<Rightarrow> (ls @ ls', r)))"

section \<open>Assembling the analysis\<close>

text \<open>
  Errors are values. \<open>FsError\<close> carries the code of a failed filesystem call,
  \<open>RollupFailure\<close> is an error thrown by the bundling engine, \<open>APIError\<close> carries
  the error list of the server's response.
\<close>

datatype error =
    Error string
  | TypeError string
  | SyntaxError
  | FsError string
  | RollupFailure RollupWarning
  | APIError "string list"
  | AbortError

text \<open>
  What the filesystem holds at a path: a file with its text, or a directory with its
  entries in the order \<^verbatim>\<open>readdirSync\<close> lists them.
\<close>

datatype fsnode = File string | Dir "(string \<times> fsnode) list"

record ComponentAnalysis =
  scope :: "string option"
  filename :: string
  moduleThunkRaw :: "string option"
  otherFields :: "(string \<times> string) list"

record Analysis =
  components :: "string \<rightharpoonup> ComponentAnalysis"
  vfs :: "string \<rightharpoonup> string"

definition emptyAnalysis :: Analysis where
  "emptyAnalysis = \<lparr>components = Map.empty, vfs = Map.empty\<rparr>"

text \<open>
  An entry of the output of the bundling engine: a chunk with its code, an asset whose
  source is a string or not (\<open>None\<close>), or an entry of another type.
\<close>

datatype OutputEntry =
    Chunk string string
  | Asset string "string option"
  | OtherEntry string

text \<open>How the body of \<^verbatim>\<open>bundleAnalysis\<close> ends, and what a call of it did.\<close>

datatype completion = Returned Analysis | Thrown error | Exited nat

datatype console_item = Line string | Value error

record AssemblyRun =
  result :: completion
  console :: "console_item list"
  rollupCalls :: nat

definition readdirSync :: "fsnode option \<Rightarrow> error + (string \<times> fsnode) list" where
  "readdirSync node =
     (case node of
        None \<Rightarrow> Inl (FsError ''ENOENT'')
      | Some (File _) \<Rightarrow> Inl (FsError ''ENOTDIR'')
      | Some (Dir entries) \<Rightarrow> Inr entries)"

definition readFileSync :: "fsnode \<Rightarrow> error + string" where
  "readFileSync node =
     (case node of File content \<Rightarrow> Inr content | Dir _ \<Rightarrow> Inl (FsError ''EISDIR''))"

text \<open>The entry of a directory by its name; nothing is found below a file.\<close>

definition child :: "fsnode option \<Rightarrow> string \<Rightarrow> fsnode option" where
  "child node nm =
     (case node of Some (Dir entries) \<Rightarrow> map_of entries nm | _ \<Rightarrow> None)"

text \<open>
  The regular expression \<^verbatim>\<open>/^\/\/ (.+)$/\<close> on the first line: two slashes, a space,
  and at least one character, none of them a line terminator.
\<close>

definition matchMarker :: "string \<Rightarrow> string option" where
  "matchMarker firstLine =
     (let p = drop 3 firstLine
      in if take 3 firstLine = ''// '' \<and> p \<noteq> [] \<and>
            CHR 0x0A \<notin> set p \<and> CHR 0x0D \<notin> set p
         then Some p else None)"

text \<open>The loop over the files of \<^verbatim>\<open>modules/\<close> (lines 296 to 310).\<close>

fun readModules ::
  "(string \<times> fsnode) list \<Rightarrow> (string \<rightharpoonup> string option) \<Rightarrow> error + (string \<rightharpoonup> string option)" where
  "readModules [] vfsForRollup = Inr vfsForRollup"
| "readModules ((fname, node) # others) vfsForRollup =
     (case readFileSync node of
        Inl e \<Rightarrow> Inl e
      | Inr content \<Rightarrow>
          (let indexOfFirstNewline = indexOf content CHR 0x0A;
               firstLine = slice content 0 indexOfFirstNewline
           in case matchMarker firstLine of
                None \<Rightarrow> Inl (Error (''Malformed path for module: '' @ firstLine))
              | Some originalRelativePath \<Rightarrow>
                  if startsWith originalRelativePath ''node_modules/''
                  then readModules others vfsForRollup
                  else readModules others
                         (vfsForRollup(originalRelativePath \<mapsto>
                            Some (sliceFrom content (indexOfFirstNewline + 1))))))"

text \<open>
  The loop over the entries of the analysis directory (lines 313 to 330). \<open>JSON_parse\<close> is the platform's
  parser followed by the destructuring of the descriptor; \<open>None\<close> stands for the
  exception either of them throws.
\<close>

type_synonym locals =
  "(string \<rightharpoonup> string) \<times> (string \<rightharpoonup> string option) \<times> (string \<rightharpoonup> ComponentAnalysis) \<times> bool"

fun readDescriptors ::
  "(string \<Rightarrow> ComponentAnalysis option) \<Rightarrow> (string \<times> fsnode) list \<Rightarrow> locals \<Rightarrow> error + locals" where
  "readDescriptors JSON_parse [] st = Inr st"
| "readDescriptors JSON_parse ((filePath, node) # others) (inputs, vfsForRollup, comps, hasAnalysis) =
     (if endsWith filePath ''.json'' then
        (case readFileSync node of
           Inl e \<Rightarrow> Inl e
         | Inr content \<Rightarrow>
             (case JSON_parse content of
                None \<Rightarrow> Inl SyntaxError
              | Some component \<Rightarrow>
                  (let virtualFilePath = filename component;
                       filenameWithOutExt =
                         slice (filename component) 0 (lastIndexOf (filename component) CHR ''.'')
                   in readDescriptors JSON_parse others
                        (inputs(filenameWithOutExt \<mapsto> filename component),
                         vfsForRollup(virtualFilePath \<mapsto> moduleThunkRaw component),
                         comps(render (scope component) \<mapsto> component\<lparr>moduleThunkRaw := None\<rparr>),
                         True))))
      else readDescriptors JSON_parse others (inputs, vfsForRollup, comps, hasAnalysis))"

text \<open>The loop over the output of the bundling engine (lines 454 to 476).\<close>

definition notSerializable :: "string \<Rightarrow> string" where
  "notSerializable fileName =
     ''Unable to bundle this project'' @ [CHR 0x27] @
     ''s analysis results due to a dependency of your component that is not currently serializable.'' @
     [CHR 0x0A] @
     ''Feel free to reach out to discuss, if you think this is a mistake or you want support!'' @
     [CHR 0x0A, CHR 0x0A] @ ''Asset: '' @ fileName"

fun collectOutput :: "OutputEntry list \<Rightarrow> (string \<rightharpoonup> string) \<Rightarrow> error + (string \<rightharpoonup> string)" where
  "collectOutput [] out = Inr out"
| "collectOutput (Chunk fileName chunkCode # others) out =
     collectOutput others (out(fileName \<mapsto> chunkCode))"
| "collectOutput (Asset fileName None # others) out = Inl (Error (notSerializable fileName))"
| "collectOutput (Asset fileName (Some src) # others) out =
     collectOutput others (out(fileName \<mapsto> src))"
| "collectOutput (OtherEntry ty # others) out =
     Inl (Error (''Unhandled rollup chunk entry type '' @ ty @ ''. This is a bug with Outsmartly.''))"

text \<open>
  The bundling engine is a parameter: given the entry points and the virtual
  filesystem, it emits warnings and then throws or produces its output.
\<close>

type_synonym bundler =
  "(string \<rightharpoonup> string) \<Rightarrow> (string \<rightharpoonup> string option) \<Rightarrow>
   RollupWarning list \<times> (error + OutputEntry list)"

text \<open>
  The body of the \<^verbatim>\<open>try\<close> block (lines 285 to 477): what it printed, how often it called the bundling
  engine, and how it ended.
\<close>

definition modulesStep ::
  "(string \<times> fsnode) list \<Rightarrow> error + (string \<rightharpoonup> string option)" where
  "modulesStep entries =
     (case map_of entries ''modules'' of
        None \<Rightarrow> Inr Map.empty
      | Some dependenciesDir \<Rightarrow>
          (case readdirSync (Some dependenciesDir) of
             Inl e \<Rightarrow> Inl e
           | Inr files \<Rightarrow> readModules files Map.empty))"

definition bundleStep ::
  "string \<Rightarrow> bundler \<Rightarrow> locals \<Rightarrow> console_item list \<times> nat \<times> completion" where
  "bundleStep cwd rollup st =
     (case st of
        (inputs, vfsForRollup, comps, hasAnalysis) \<Rightarrow>
          if \<not> hasAnalysis then ([], 0, Returned emptyAnalysis)
          else
            (case rollup inputs vfsForRollup of
               (warnings, produced) \<Rightarrow>
                 (case runWarnings cwd warnings of
                    (ls, Some status) \<Rightarrow> (map Line ls, 1, Exited status)
                  | (ls, None) \<Rightarrow>
                      (case produced of
                         Inl e \<Rightarrow> (map Line ls, 1, Thrown e)
                       | Inr entries \<Rightarrow>
                           (case collectOutput entries Map.empty of
                              Inl e \<Rightarrow> (map Line ls, 1, Thrown e)
                            | Inr out \<Rightarrow>
                                (map Line ls, 1,
                                 Returned \<lparr>components = comps, vfs = out\<rparr>))))))"

definition tryBody ::
  "string \<Rightarrow> (string \<Rightarrow> ComponentAnalysis option) \<Rightarrow> bundler \<Rightarrow> fsnode option \<Rightarrow>
   console_item list \<times> nat \<times> completion" where
  "tryBody cwd JSON_parse rollup tmp =
     (case readdirSync (child tmp ''analysis'') of
        Inl e \<Rightarrow> ([], 0, Thrown e)
      | Inr componentAnalysisFilePaths \<Rightarrow>
          (case modulesStep componentAnalysisFilePaths of
             Inl e \<Rightarrow> ([], 0, Thrown e)
           | Inr vfsForRollup \<Rightarrow>
               (case readDescriptors JSON_parse componentAnalysisFilePaths
                       (Map.empty, vfsForRollup, Map.empty, False) of
                  Inl e \<Rightarrow> ([], 0, Thrown e)
                | Inr st \<Rightarrow> bundleStep cwd rollup st)))"

text \<open>
  \<^verbatim>\<open>bundleAnalysis\<close> (lines 280 to 482): \<open>tmp\<close> is what the filesystem holds at \<open>tmpDir\<close> (\<open>None\<close>
  when \<^verbatim>\<open>existsSync\<close> answers false). The \<^verbatim>\<open>catch\<close> block prints the error it caught
  and throws the generic one.
\<close>

definition unexpectedResults :: "string \<Rightarrow> error" where
  "unexpectedResults tmpDir = Error (''Unexpected analysis results in '' @ tmpDir @ ''.'')"

definition bundleAnalysis ::
  "string \<Rightarrow> (string \<Rightarrow> ComponentAnalysis option) \<Rightarrow> bundler \<Rightarrow> string \<Rightarrow> fsnode option \<Rightarrow>
   AssemblyRun" where
  "bundleAnalysis cwd JSON_parse rollup tmpDir tmp =
     (if tmp = None then \<lparr>result = Returned emptyAnalysis, console = [], rollupCalls = 0\<rparr>
      else
        (case tryBody cwd JSON_parse rollup tmp of
           (printed, calls, Thrown e) \<Rightarrow>
             \<lparr>result = Thrown (unexpectedResults tmpDir),
              console = printed @ [Value e], rollupCalls = calls\<rparr>
         | (printed, calls, ending) \<Rightarrow>
             \<lparr>result = ending, console = printed, rollupCalls = calls\<rparr>))"

section \<open>Evaluating the configuration\<close>

text \<open>
  Lines 503 to 514. The compiled chunk runs in a fresh context; \<open>exported\<close> is the value it leaves in
  \<^verbatim>\<open>module.exports.default\<close> (\<open>None\<close> when there is no default export). The
  destructuring gives \<^verbatim>\<open>tmpDir\<close> its default when the field is undefined, and a falsy
  \<^verbatim>\<open>host\<close> is an error that names the path of the configuration file.
\<close>

record ConfigExport =
  host :: "string option"
  tmpDir :: "string option"

definition missingHost :: "string \<Rightarrow> error" where
  "missingHost configPath =
     Error (''Missing '' @ [CHR 0x27] @ ''host'' @ [CHR 0x27] @ '' field in '' @ configPath)"

definition evaluate :: "string \<Rightarrow> ConfigExport option \<Rightarrow> error + string \<times> string" where
  "evaluate configPath exported =
     (case exported of
        None \<Rightarrow> Inl (TypeError ''Cannot destructure module.exports.default'')
      | Some ex \<Rightarrow>
          (let dir = (case tmpDir ex of None \<Rightarrow> ''./.outsmartly/'' | Some d \<Rightarrow> d)
           in if \<not> truthy (host ex) then Inl (missingHost configPath)
              else Inr (render (host ex), dir)))"

section \<open>The deploy orchestrator\<close>

text \<open>
  The fields of the command object that the single-flight logic uses. An abort
  controller is known by its number; \<open>abortedControllers\<close> lists those whose signal
  has fired.
\<close>

record WatchState =
  pendingDeployCount :: nat
  abortController :: nat
  abortedControllers :: "nat list"

definition initialState :: WatchState where
  "initialState = \<lparr>pendingDeployCount = 0, abortController = 0, abortedControllers = []\<rparr>"

text \<open>
  The handler of the watcher's \<^verbatim>\<open>change\<close> event (lines 243 to 257). The second component says whether
  the handler goes on to call \<^verbatim>\<open>deploy\<close> itself, which it does only when no attempt
  is in flight.
\<close>

definition onChange :: "WatchState \<Rightarrow> WatchState \<times> bool" where
  "onChange s =
     (let s1 = s\<lparr>pendingDeployCount := pendingDeployCount s + 1\<rparr>
      in if pendingDeployCount s1 > 1
         then (s1\<lparr>abortedControllers := abortController s1 # abortedControllers s1,
                  abortController := abortController s1 + 1\<rparr>, False)
         else (s1, True))"

fun deliver :: "nat \<Rightarrow> WatchState \<Rightarrow> WatchState" where
  "deliver 0 s = s"
| "deliver (Suc n) s = deliver n (fst (onChange s))"

text \<open>
  A timestamp is the result of \<^verbatim>\<open>new Date(updatedAt).getTime()\<close>: milliseconds, or
  \<open>None\<close> for \<^verbatim>\<open>NaN\<close>, with which every comparison is false.
\<close>

definition timeLe :: "int option \<Rightarrow> int option \<Rightarrow> bool" where
  "timeLe a b = (case (a, b) of (Some x, Some y) \<Rightarrow> x \<le> y | _ \<Rightarrow> False)"

text \<open>
  The process has one thread: a \<^verbatim>\<open>change\<close> event can only be handled while
  \<^verbatim>\<open>deploy\<close> is suspended at an \<^verbatim>\<open>await\<close>. The environment is a script with one
  entry for each \<^verbatim>\<open>await\<close> that \<^verbatim>\<open>deploy\<close> reaches, in order: the number of
  \<^verbatim>\<open>change\<close> events handled while it was suspended, and what the awaited call gave.
  A script that ends early, or answers an \<^verbatim>\<open>await\<close> with a reply of another call,
  gives \<open>None\<close>. While an attempt is in flight the counter is at least 1, so an event
  delivered during an \<^verbatim>\<open>await\<close> never starts an attempt of its own. A call that
  throws, or during which a fatal warning ends the process, is \<open>Rejected\<close>.
\<close>

datatype reply =
    Bundled string "ConfigExport option"
  | Assembled Analysis
  | Patched "int option"
  | Manifest "int option"
  | Slept
  | Rejected error

type_synonym script = "(nat \<times> reply) list"

text \<open>The calls an attempt makes, in order; the last argument of a call is its abort signal.\<close>

datatype action =
    BundleConfig string
  | BundleAnalysisCall string
  | PatchSiteCall string string Analysis nat
  | FetchManifestCall string nat
  | SleepCall nat nat
  | DeployedMessage string

datatype outcome = Deployed | Superseded | Aborted | Fatal error

definition isFatal :: "outcome \<Rightarrow> bool" where
  "isFatal out = (case out of Fatal _ \<Rightarrow> True | _ \<Rightarrow> False)"

fun await :: "script \<Rightarrow> WatchState \<Rightarrow> (reply \<times> WatchState \<times> script) option" where
  "await [] s = None"
| "await ((n, r) # scr) s = Some (r, deliver n s, scr)"

text \<open>
  Modelled from the spec: \<^verbatim>\<open>panic\<close> (the module \<^verbatim>\<open>../panic\<close>, which is not among the
  sources) prints a diagnostic and ends the process, as \<^verbatim>\<open>handleRollupError\<close> does when
  fatal. The \<^verbatim>\<open>catch\<close> block of \<^verbatim>\<open>deploy\<close> returns quietly on an \<^verbatim>\<open>AbortError\<close> and
  ends the process on every other error.
\<close>

definition catchBlock :: "error \<Rightarrow> outcome" where
  "catchBlock e = (if e = AbortError then Aborted else Fatal e)"

text \<open>The polling loop (lines 559 to 587).\<close>

function poll ::
  "string \<Rightarrow> int option \<Rightarrow> nat \<Rightarrow> script \<Rightarrow> WatchState \<Rightarrow> action list \<Rightarrow>
   (outcome \<times> WatchState \<times> script \<times> action list) option" where
  "poll h deployTime fetchManifestCount scr s tr =
     (if pendingDeployCount s > 1 then Some (Superseded, s, scr, tr)
      else
        (case await scr s of
           None \<Rightarrow> None
         | Some (r, s1, scr1) \<Rightarrow>
             (let cnt = fetchManifestCount + 1;
                  tr1 = tr @ [FetchManifestCall h (abortController s)]
              in case r of
                   Manifest lastUpdatedTime \<Rightarrow>
                     if timeLe deployTime lastUpdatedTime
                     then Some (Deployed, s1, scr1, tr1 @ [DeployedMessage h])
                     else
                       (case await scr1 s1 of
                          None \<Rightarrow> None
                        | Some (r2, s2, scr2) \<Rightarrow>
                            (let tr2 = tr1 @ [SleepCall (1000 * cnt) (abortController s1)]
                             in case r2 of
                                  Slept \<Rightarrow> poll h deployTime cnt scr2 s2 tr2
                                | Rejected e \<Rightarrow> Some (catchBlock e, s2, scr2, tr2)
                                | _ \<Rightarrow> None))
                 | Rejected e \<Rightarrow> Some (catchBlock e, s1, scr1, tr1)
                 | _ \<Rightarrow> None)))"
  by pat_completeness auto
termination
  by (relation "measure (\<lambda>(h, deployTime, cnt, scr, s, tr). length scr)")
     (auto split: list.splits prod.splits elim!: await.elims)

declare poll.simps [simp del]

text \<open>
  One attempt: the \<^verbatim>\<open>try\<close> block of \<^verbatim>\<open>deploy\<close> (lines 491 to 587) with its \<^verbatim>\<open>catch\<close>
  (lines 588 to 616), in three stages: bundling and evaluating, assembling, uploading.
\<close>

definition uploadStage ::
  "string \<Rightarrow> string \<Rightarrow> Analysis \<Rightarrow> script \<Rightarrow> WatchState \<Rightarrow> action list \<Rightarrow>
   (outcome \<times> WatchState \<times> script \<times> action list) option" where
  "uploadStage h configRaw analysis scr s tr =
     (case await scr s of
        None \<Rightarrow> None
      | Some (r, s1, scr1) \<Rightarrow>
          (let tr1 = tr @ [PatchSiteCall h configRaw analysis (abortController s)]
           in case r of
                Patched deployTime \<Rightarrow>
                  if pendingDeployCount s1 > 1 then Some (Superseded, s1, scr1, tr1)
                  else poll h deployTime 0 scr1 s1 tr1
              | Rejected e \<Rightarrow> Some (catchBlock e, s1, scr1, tr1)
              | _ \<Rightarrow> None))"

definition assembleStage ::
  "string \<Rightarrow> string \<Rightarrow> string \<Rightarrow> script \<Rightarrow> WatchState \<Rightarrow> action list \<Rightarrow>
   (outcome \<times> WatchState \<times> script \<times> action list) option" where
  "assembleStage h dir configRaw scr s tr =
     (case await scr s of
        None \<Rightarrow> None
      | Some (r, s1, scr1) \<Rightarrow>
          (let tr1 = tr @ [BundleAnalysisCall dir]
           in case r of
                Assembled analysis \<Rightarrow> uploadStage h configRaw analysis scr1 s1 tr1
              | Rejected e \<Rightarrow> Some (catchBlock e, s1, scr1, tr1)
              | _ \<Rightarrow> None))"

definition attempt ::
  "string \<Rightarrow> script \<Rightarrow> WatchState \<Rightarrow>
   (outcome \<times> WatchState \<times> script \<times> action list) option" where
  "attempt configPath scr s =
     (case await scr s of
        None \<Rightarrow> None
      | Some (r, s1, scr1) \<Rightarrow>
          (let tr1 = [BundleConfig configPath]
           in case r of
                Bundled chunkCode exported \<Rightarrow>
                  if pendingDeployCount s1 > 1 then Some (Superseded, s1, scr1, tr1)
                  else
                    (case evaluate configPath exported of
                       Inl e \<Rightarrow> Some (catchBlock e, s1, scr1, tr1)
                     | Inr (h, dir) \<Rightarrow> assembleStage h dir chunkCode scr1 s1 tr1)
              | Rejected e \<Rightarrow> Some (catchBlock e, s1, scr1, tr1)
              | _ \<Rightarrow> None))"

text \<open>
  Facts for the termination of \<open>deploy\<close>: an \<^verbatim>\<open>await\<close> consumes one entry of the
  script, and each \<^verbatim>\<open>change\<close> event adds one to the counter, so the counter plus
  the events still in the script is the same before and after an attempt.
\<close>

lemma await_Some:
  "await scr s = Some (r, s1, scr1) \<longleftrightarrow> (\<exists>n. scr = (n, r) # scr1 \<and> s1 = deliver n s)"
  by (cases scr) auto

lemma deliver_count [simp]:
  "pendingDeployCount (deliver n s) = pendingDeployCount s + n"
  by (induction n arbitrary: s) (auto simp: onChange_def Let_def)

lemma poll_conserves:
  "poll h t c scr s tr = Some (out, s', scr', tr') \<Longrightarrow>
   length scr' \<le> length scr \<and>
   pendingDeployCount s' + sum_list (map fst scr') = pendingDeployCount s + sum_list (map fst scr)"
  apply (induction h t c scr s tr rule: poll.induct)
  apply (subst (asm) (2) poll.simps)
  apply (fastforce simp: Let_def await_Some split: if_splits option.splits reply.splits)
  done

lemma uploadStage_conserves:
  "uploadStage h c a scr s tr = Some (out, s', scr', tr') \<Longrightarrow>
   length scr' < length scr \<and>
   pendingDeployCount s' + sum_list (map fst scr') = pendingDeployCount s + sum_list (map fst scr)"
  by (fastforce simp: uploadStage_def Let_def await_Some
        split: if_splits option.splits reply.splits dest!: poll_conserves)

lemma assembleStage_conserves:
  "assembleStage h d c scr s tr = Some (out, s', scr', tr') \<Longrightarrow>
   length scr' < length scr \<and>
   pendingDeployCount s' + sum_list (map fst scr') = pendingDeployCount s + sum_list (map fst scr)"
  by (fastforce simp: assembleStage_def Let_def await_Some
        split: option.splits reply.splits dest!: uploadStage_conserves)

lemma attempt_conserves:
  "attempt p scr s = Some (out, s', scr', tr') \<Longrightarrow>
   length scr' < length scr \<and>
   pendingDeployCount s' + sum_list (map fst scr') = pendingDeployCount s + sum_list (map fst scr)"
  by (fastforce simp: attempt_def Let_def await_Some
        split: if_splits option.splits reply.splits sum.splits dest!: assembleStage_conserves)

text \<open>
  \<^verbatim>\<open>deploy\<close> with its \<^verbatim>\<open>finally\<close> block (lines 617 to 631): when the counter is above 1 at the end of an
  attempt, it is set to 1 and \<^verbatim>\<open>deploy\<close> is called again; otherwise it is set to 0.
  The result lists the outcomes of the attempts in order. A fatal error ends the
  process, so nothing runs after it.
\<close>

function deploy ::
  "string \<Rightarrow> script \<Rightarrow> WatchState \<Rightarrow>
   (outcome list \<times> WatchState \<times> script \<times> action list) option" where
  "deploy configPath scr s =
     (case attempt configPath scr s of
        None \<Rightarrow> None
      | Some (out, s1, scr1, tr1) \<Rightarrow>
          if isFatal out then Some ([out], s1, scr1, tr1)
          else if pendingDeployCount s1 > 1 then
            (case deploy configPath scr1 (s1\<lparr>pendingDeployCount := 1\<rparr>) of
               None \<Rightarrow> None
             | Some (outs, s2, scr2, tr2) \<Rightarrow> Some (out # outs, s2, scr2, tr1 @ tr2))
          else Some ([out], s1\<lparr>pendingDeployCount := 0\<rparr>, scr1, tr1))"
  by pat_completeness auto
termination
  by (relation "measure (\<lambda>(configPath, scr, s). length scr)")
     (auto dest: attempt_conserves)

declare deploy.simps [simp del]

text \<open>\<^verbatim>\<open>run\<close> counts its own request and calls \<^verbatim>\<open>deploy\<close> (lines 260 and 261).\<close>

definition run ::
  "string \<Rightarrow> script \<Rightarrow> WatchState \<Rightarrow>
   (outcome list \<times> WatchState \<times> script \<times> action list) option" where
  "run configPath scr s = deploy configPath scr (s\<lparr>pendingDeployCount := pendingDeployCount s + 1\<rparr>)"

section \<open>Sample inputs\<close>

definition sampleWarning :: "string \<Rightarrow> RollupWarning" where
  "sampleWarning c =
     \<lparr>code = Some c, message = ''Something happened'', name = None, plugin = None, url = None,
      loc = None, moduleId = None, frame = None, source = Some ''./Baz'',
      importer = Some ''src/App.tsx'', asString = ''[object Object]''\<rparr>"

definition sampleComponent :: ComponentAnalysis where
  "sampleComponent =
     \<lparr>scope = Some ''c0'', filename = ''components/Foo.tsx'',
      moduleThunkRaw = Some ''export default () => null'', otherFields = []\<rparr>"

definition sampleParse :: "string \<Rightarrow> ComponentAnalysis option" where
  "sampleParse content = (if content = ''{}'' then Some sampleComponent else None)"

definition binaryBundler :: bundler where
  "binaryBundler inputs v = ([], Inr [Asset ''logo.png'' None])"

definition descriptorTree :: fsnode where
  "descriptorTree = Dir [(''analysis'', Dir [(''c0.json'', File ''{}'')])]"

definition unmarkedEntries :: "(string \<times> fsnode) list" where
  "unmarkedEntries =
     [(''modules'', Dir [(''m0'', File (''import React'' @ [CHR 0x0A] @ ''export {}''))]),
      (''c0.json'', File ''{}'')]"

definition sampleExport :: "ConfigExport option" where
  "sampleExport = Some \<lparr>host = Some ''example.com'', tmpDir = None\<rparr>"

definition sampleAnalysis :: Analysis where
  "sampleAnalysis =
     \<lparr>components = [''c0'' \<mapsto> sampleComponent\<lparr>moduleThunkRaw := None\<rparr>],
      vfs = [''components/Foo.js'' \<mapsto> ''exports.default = 1'']\<rparr>"

definition inFlight :: WatchState where
  "inFlight = initialState\<lparr>pendingDeployCount := 1\<rparr>"

definition retryScript :: script where
  "retryScript =
     [(1, Bundled ''cfg'' sampleExport),
      (0, Bundled ''cfg2'' sampleExport), (0, Assembled sampleAnalysis),
      (0, Patched (Some 10)), (0, Manifest (Some 10))]"

definition secondAttempt :: "action list" where
  "secondAttempt =
     [BundleConfig ''outsmartly.config.js'', BundleAnalysisCall ''./.outsmartly/'',
      PatchSiteCall ''example.com'' ''cfg2'' sampleAnalysis 1,
      FetchManifestCall ''example.com'' 1, DeployedMessage ''example.com'']"

section \<open>Module resolution: the results\<close>





section \<open>Warning triage: the results\<close>

lemma sublist_ConsI: "sublist xs ys \<Longrightarrow> sublist xs (y # ys)"
  by (simp add: sublist_Cons_right)

lemma sublist_skipI: "sublist xs ys \<Longrightarrow> sublist xs (ps @ ys)"
  by (metis sublist_append_leftI sublist_order.order.trans)

lemma first_line:
  "hd (fst (handleRollupError cwd err fatal)) =
     (''[!] '' @
       (if truthy (plugin err) then ''(plugin '' @ render (plugin err) @ '') '' else []) @
       (if truthy (name err) then render (name err) @ '': '' else [])) @
     (if message err \<noteq> [] then message err else asString err)"
  by (simp add: handleRollupError_def Let_def)

lemma exit_status: "snd (handleRollupError cwd err fatal) = (if fatal then Some 1 else None)"
  by (simp add: handleRollupError_def Let_def)

text \<open>
  C6, as amended. A dependency-cycle or loose-\<^verbatim>\<open>this\<close> warning prints nothing and does
  not end the process. An unresolved-import warning ends the process with status 1, and
  the first line printed contains the unresolved source and the importer. A
  non-existent-export warning ends the process with status 1 and is printed with the
  message the bundling engine gave it. Every other warning is printed with its message
  prefixed by \<^verbatim>\<open>Rollup Bundler Warning: \<close> and does not end the process.
\<close>

theorem onwarn_triage:
  "(code w = Some ''CIRCULAR_DEPENDENCY'' \<or> code w = Some ''THIS_IS_UNDEFINED'' \<longrightarrow>
      onwarn cwd w = ([], None)) \<and>
   (code w = Some ''UNRESOLVED_IMPORT'' \<longrightarrow>
      snd (onwarn cwd w) = Some 1 \<and>
      sublist (render (source w)) (hd (fst (onwarn cwd w))) \<and>
      sublist (render (importer w)) (hd (fst (onwarn cwd w)))) \<and>
   (code w = Some ''NON_EXISTENT_EXPORT'' \<longrightarrow>
      onwarn cwd w = handleRollupError cwd w True \<and> snd (onwarn cwd w) = Some 1) \<and>
   (code w \<notin> {Some ''CIRCULAR_DEPENDENCY'', Some ''THIS_IS_UNDEFINED'',
               Some ''NON_EXISTENT_EXPORT'', Some ''UNRESOLVED_IMPORT''} \<longrightarrow>
      snd (onwarn cwd w) = None \<and>
      sublist (''Rollup Bundler Warning: '' @ message w) (hd (fst (onwarn cwd w))))"
  by (auto simp: onwarn_def first_line exit_status intro!: sublist_ConsI intro: sublist_skipI)

theorem onwarn_triage_witness:
  "onwarn ''/site'' (sampleWarning ''CIRCULAR_DEPENDENCY'') = ([], None) \<and>
   snd (onwarn ''/site'' (sampleWarning ''UNRESOLVED_IMPORT'')) = Some 1 \<and>
   sublist ''./Baz'' (hd (fst (onwarn ''/site'' (sampleWarning ''UNRESOLVED_IMPORT'')))) \<and>
   sublist ''src/App.tsx'' (hd (fst (onwarn ''/site'' (sampleWarning ''UNRESOLVED_IMPORT'')))) \<and>
   snd (onwarn ''/site'' (sampleWarning ''NON_EXISTENT_EXPORT'')) = Some 1 \<and>
   snd (onwarn ''/site'' (sampleWarning ''EVAL'')) = None \<and>
   sublist ''Rollup Bundler Warning: Something happened''
     (hd (fst (onwarn ''/site'' (sampleWarning ''EVAL''))))"
  using onwarn_triage [of "sampleWarning ''CIRCULAR_DEPENDENCY''" "''/site''"]
        onwarn_triage [of "sampleWarning ''UNRESOLVED_IMPORT''" "''/site''"]
        onwarn_triage [of "sampleWarning ''NON_EXISTENT_EXPORT''" "''/site''"]
        onwarn_triage [of "sampleWarning ''EVAL''" "''/site''"]
  by (simp add: sampleWarning_def render_def exit_status)

text \<open>
  C6 as stated has the message of a non-existent-export warning annotated with the
  source and the importer. The code rewrites the message of an unresolved import only:
  this warning, with source \<^verbatim>\<open>./Baz\<close> and importer \<^verbatim>\<open>src/App.tsx\<close>, is printed with
  its own message, which names neither.
\<close>

theorem onwarn_non_existent_export_counterexample:
  "onwarn ''/site'' (sampleWarning ''NON_EXISTENT_EXPORT'') =
     ([''[!] Something happened'', []], Some 1)"
  by (simp add: onwarn_def sampleWarning_def handleRollupError_def truthy_def)

section \<open>Evaluating the configuration: the results\<close>

text \<open>
  C9, as amended. When the default export has a non-empty \<^verbatim>\<open>host\<close>, evaluation yields
  that host, with \<^verbatim>\<open>tmpDir\<close> as given or \<^verbatim>\<open>./.outsmartly/\<close> when it is omitted. When
  \<^verbatim>\<open>host\<close> is missing, evaluation fails with an error whose message names the path of
  the configuration file.
\<close>

theorem evaluate_host:
  "(host ex = Some h \<and> h \<noteq> [] \<longrightarrow>
      evaluate p (Some ex) = Inr (h, case tmpDir ex of None \<Rightarrow> ''./.outsmartly/'' | Some d \<Rightarrow> d)) \<and>
   (host ex = None \<longrightarrow>
      evaluate p (Some ex) = Inl (Error (''Missing 'host' field in '' @ p)))"
  by (auto simp: evaluate_def truthy_def render_def missingHost_def)

theorem evaluate_host_witness:
  "evaluate ''outsmartly.config.js'' (Some \<lparr>host = Some ''example.com'', tmpDir = None\<rparr>) =
     Inr (''example.com'', ''./.outsmartly/'') \<and>
   evaluate ''outsmartly.config.js'' (Some \<lparr>host = None, tmpDir = Some ''tmp/''\<rparr>) =
     Inl (Error ''Missing 'host' field in outsmartly.config.js'')"
  using evaluate_host [of "\<lparr>host = Some ''example.com'', tmpDir = None\<rparr>" "''example.com''"
          "''outsmartly.config.js''"]
        evaluate_host [of "\<lparr>host = None, tmpDir = Some ''tmp/''\<rparr>" "''x''"
          "''outsmartly.config.js''"]
  by simp

text \<open>
  C9 as stated covers every default export that contains a \<^verbatim>\<open>host\<close> field. The guard
  is \<^verbatim>\<open>!host\<close>: an export whose \<^verbatim>\<open>host\<close> is the empty string contains the field, and
  evaluation fails as if it were missing.
\<close>

theorem evaluate_empty_host_counterexample:
  "evaluate ''outsmartly.config.js'' (Some \<lparr>host = Some [], tmpDir = None\<rparr>) =
     Inl (Error ''Missing 'host' field in outsmartly.config.js'')"
  by (simp add: evaluate_def truthy_def missingHost_def)

section \<open>Assembling the analysis: the results\<close>

lemmas js_defs = slice_def sliceFrom_def clampIndex_def startsWith_def endsWith_def lastIndexOf_def

lemmas fs_defs = bundleAnalysis_def tryBody_def child_def readdirSync_def modulesStep_def
  readFileSync_def matchMarker_def unexpectedResults_def bundleStep_def emptyAnalysis_def

text \<open>
  C3, as amended. When \<^verbatim>\<open>tmpDir\<close>, the directory that \<^verbatim>\<open>bundleAnalysis\<close> is given, does
  not exist, the result is the empty analysis; nothing is printed, nothing is thrown and
  the bundling engine is not called.
\<close>

theorem bundleAnalysis_missing_tmpDir:
  "bundleAnalysis cwd parse rollup dir None =
     \<lparr>result = Returned \<lparr>components = Map.empty, vfs = Map.empty\<rparr>, console = [],
      rollupCalls = 0\<rparr>"
  by (simp add: fs_defs)

text \<open>
  C3 as stated is about the analysis directory, which the code names \<^verbatim>\<open>analysisDir\<close>
  and sets to \<^verbatim>\<open>path.join(tmpDir, 'analysis')\<close>. The existence check is on \<^verbatim>\<open>tmpDir\<close>:
  when \<^verbatim>\<open>tmpDir\<close> exists and is empty, the analysis directory does not exist, listing
  it fails inside the \<^verbatim>\<open>try\<close> block, and the generic error is thrown.
\<close>

theorem bundleAnalysis_missing_analysis_counterexample:
  "bundleAnalysis ''/site'' sampleParse binaryBundler ''./.outsmartly/'' (Some (Dir [])) =
     \<lparr>result = Thrown (Error ''Unexpected analysis results in ./.outsmartly/.''),
      console = [Value (FsError ''ENOENT'')], rollupCalls = 0\<rparr>"
  by (simp add: fs_defs)

text \<open>
  C10. Whatever is thrown inside \<^verbatim>\<open>bundleAnalysis\<close> once \<^verbatim>\<open>tmpDir\<close> exists, the error
  that leaves it is the generic \<^verbatim>\<open>Unexpected analysis results in <tmpDir>.\<close>; the error
  that the \<^verbatim>\<open>try\<close> block threw is printed to the console as the last item and is not
  rethrown.
\<close>

theorem bundleAnalysis_generic_error:
  "(result (bundleAnalysis cwd parse rollup dir tmp) = Thrown e \<longrightarrow>
      e = Error (''Unexpected analysis results in '' @ dir @ ''.'')) \<and>
   (tmp \<noteq> None \<and> tryBody cwd parse rollup tmp = (pr, n, Thrown orig) \<longrightarrow>
      bundleAnalysis cwd parse rollup dir tmp =
        \<lparr>result = Thrown (Error (''Unexpected analysis results in '' @ dir @ ''.'')),
         console = pr @ [Value orig], rollupCalls = n\<rparr>)"
  by (cases "tryBody cwd parse rollup tmp" rule: prod_cases3;
      cases "snd (snd (tryBody cwd parse rollup tmp))")
     (auto simp: bundleAnalysis_def unexpectedResults_def emptyAnalysis_def)

theorem bundleAnalysis_generic_error_witness:
  "bundleAnalysis ''/site'' sampleParse binaryBundler ''./.outsmartly/'' (Some descriptorTree) =
     \<lparr>result = Thrown (Error ''Unexpected analysis results in ./.outsmartly/.''),
      console = [Value (Error (notSerializable ''logo.png''))], rollupCalls = 1\<rparr>"
proof -
  have t: "tryBody ''/site'' sampleParse binaryBundler (Some descriptorTree) =
      ([], 1, Thrown (Error (notSerializable ''logo.png'')))"
    by (simp add: fs_defs descriptorTree_def sampleParse_def sampleComponent_def
          binaryBundler_def js_defs)
  show ?thesis
    using bundleAnalysis_generic_error [where tmp = "Some descriptorTree" and pr = "[]" and n = 1
        and orig = "Error (notSerializable ''logo.png'')" and dir = "''./.outsmartly/''"
        and cwd = "''/site''" and parse = sampleParse and rollup = binaryBundler
        and e = "Error ''Unexpected analysis results in ./.outsmartly/.''"] t
    by simp
qed

lemma readModules_fails:
  "(f, File content) \<in> set files \<Longrightarrow>
   matchMarker (slice content 0 (indexOf content (CHR 0x0A))) = None \<Longrightarrow>
   \<exists>e. readModules files v = Inl e"
  by (induction files arbitrary: v)
     (auto simp: readFileSync_def Let_def split: fsnode.splits option.splits)

text \<open>
  C8, as amended. When a file of \<^verbatim>\<open>modules/\<close> has a first line that does not match the
  marker, \<^verbatim>\<open>bundleAnalysis\<close> throws the generic error, returns no analysis and does
  not call the bundling engine; the error of the loop itself, which the \<^verbatim>\<open>catch\<close> block
  prints, is \<^verbatim>\<open>Malformed path for module: <first line>\<close>. A file whose marker path
  starts with \<^verbatim>\<open>node_modules/\<close> is skipped: the virtual filesystem is left as it was.
\<close>

theorem malformed_module_header:
  "(map_of root ''analysis'' = Some (Dir entries) \<and> map_of entries ''modules'' = Some (Dir files) \<and>
    (f, File content) \<in> set files \<and>
    matchMarker (slice content 0 (indexOf content (CHR 0x0A))) = None \<longrightarrow>
      result (bundleAnalysis cwd parse rollup dir (Some (Dir root))) =
        Thrown (Error (''Unexpected analysis results in '' @ dir @ ''.'')) \<and>
      rollupCalls (bundleAnalysis cwd parse rollup dir (Some (Dir root))) = 0) \<and>
   (matchMarker (slice content 0 (indexOf content (CHR 0x0A))) = None \<longrightarrow>
      readModules ((f, File content) # others) v =
        Inl (Error (''Malformed path for module: '' @ slice content 0 (indexOf content (CHR 0x0A))))) \<and>
   (matchMarker (slice content 0 (indexOf content (CHR 0x0A))) = Some p \<and>
    startsWith p ''node_modules/'' \<longrightarrow>
      readModules ((f, File content) # others) v = readModules others v)"
  using readModules_fails [of f content files Map.empty]
  by (auto simp: bundleAnalysis_def tryBody_def child_def readdirSync_def modulesStep_def
        readFileSync_def unexpectedResults_def Let_def)

theorem malformed_module_header_witness:
  "result (bundleAnalysis ''/site'' sampleParse binaryBundler ''./.outsmartly/''
     (Some (Dir [(''analysis'', Dir unmarkedEntries)]))) =
     Thrown (Error ''Unexpected analysis results in ./.outsmartly/.'') \<and>
   readModules [(''m1'', File (''// node_modules/react/index.js'' @ [CHR 0x0A] @ ''x''))]
     Map.empty = Inr Map.empty"
  using malformed_module_header [where root = "[(''analysis'', Dir unmarkedEntries)]"
      and entries = unmarkedEntries
      and files = "[(''m0'', File (''import React'' @ [CHR 0x0A] @ ''export {}''))]"
      and f = "''m0''" and content = "''import React'' @ [CHR 0x0A] @ ''export {}''"
      and dir = "''./.outsmartly/''" and cwd = "''/site''" and parse = sampleParse
      and rollup = binaryBundler]
    malformed_module_header [where f = "''m1''"
      and content = "''// node_modules/react/index.js'' @ [CHR 0x0A] @ ''x''"
      and p = "''node_modules/react/index.js''" and others = "[]" and v = Map.empty]
  by (simp add: unmarkedEntries_def matchMarker_def js_defs)

text \<open>
  C8 as stated has the assembly fail with a malformed-header error. The \<^verbatim>\<open>catch\<close> block
  replaces every error of the \<^verbatim>\<open>try\<close> block: the error thrown is the generic one, and
  the malformed-header error is only printed.
\<close>

theorem malformed_module_header_counterexample:
  "bundleAnalysis ''/site'' sampleParse binaryBundler ''./.outsmartly/''
     (Some (Dir [(''analysis'', Dir unmarkedEntries)])) =
     \<lparr>result = Thrown (Error ''Unexpected analysis results in ./.outsmartly/.''),
      console = [Value (Error ''Malformed path for module: import React'')], rollupCalls = 0\<rparr>"
  by (simp add: fs_defs unmarkedEntries_def js_defs)

lemma readDescriptors_no_json:
  "list_all (\<lambda>(n, node). \<not> endsWith n ''.json'') entries \<Longrightarrow>
   readDescriptors parse entries (i, v, c, b) = Inr (i, v, c, b)"
  by (induction entries) auto

text \<open>
  C7, as amended. When the analysis directory exists, none of its entries ends in
  \<^verbatim>\<open>.json\<close>, and its \<^verbatim>\<open>modules/\<close> subdirectory (if there is one) is read without an
  error, \<^verbatim>\<open>bundleAnalysis\<close> returns the empty analysis, prints nothing and does not call
  the bundling engine.
\<close>

theorem no_descriptors:
  "map_of root ''analysis'' = Some (Dir entries) \<Longrightarrow>
   list_all (\<lambda>(n, node). \<not> endsWith n ''.json'') entries \<Longrightarrow>
   modulesStep entries = Inr v \<Longrightarrow>
   bundleAnalysis cwd parse rollup dir (Some (Dir root)) =
     \<lparr>result = Returned \<lparr>components = Map.empty, vfs = Map.empty\<rparr>, console = [],
      rollupCalls = 0\<rparr>"
  by (simp add: bundleAnalysis_def tryBody_def child_def readdirSync_def readDescriptors_no_json
        bundleStep_def emptyAnalysis_def)

theorem no_descriptors_witness:
  "bundleAnalysis ''/site'' sampleParse binaryBundler ''./.outsmartly/''
     (Some (Dir [(''analysis'', Dir [(''notes.txt'', File ''none'')])])) =
     \<lparr>result = Returned \<lparr>components = Map.empty, vfs = Map.empty\<rparr>, console = [],
      rollupCalls = 0\<rparr>"
  by (rule no_descriptors [where entries = "[(''notes.txt'', File ''none'')]" and v = Map.empty])
     (simp_all add: modulesStep_def js_defs)

text \<open>
  C7 as stated covers every analysis directory without descriptors. The files of
  \<^verbatim>\<open>modules/\<close> are read before the descriptors are looked for: a module file without
  a marker makes the call throw although there is no descriptor.
\<close>

theorem no_descriptors_counterexample:
  "bundleAnalysis ''/site'' sampleParse binaryBundler ''./.outsmartly/''
     (Some (Dir [(''analysis'', Dir [(''modules'', Dir [(''m0'', File (''export {}'' @ [CHR 0x0A]))])])])) =
     \<lparr>result = Thrown (Error ''Unexpected analysis results in ./.outsmartly/.''),
      console = [Value (Error ''Malformed path for module: export {}'')], rollupCalls = 0\<rparr>"
  by (simp add: fs_defs js_defs)

section \<open>The propagation poller: the results\<close>

lemma poll_guard:
  "1 < pendingDeployCount s \<Longrightarrow> poll h t c scr s tr = Some (Superseded, s, scr, tr)"
  by (simp add: poll.simps)

lemma poll_confirm:
  "pendingDeployCount s \<le> 1 \<Longrightarrow> timeLe t m \<Longrightarrow>
   poll h t c ((n, Manifest m) # scr) s tr =
     Some (Deployed, deliver n s, scr,
           tr @ [FetchManifestCall h (abortController s), DeployedMessage h])"
  by (simp add: poll.simps [of h t c "(n, Manifest m) # scr"])

lemma poll_sleep:
  "pendingDeployCount s \<le> 1 \<Longrightarrow> \<not> timeLe t m \<Longrightarrow>
   poll h t c ((n, Manifest m) # (k, Slept) # scr) s tr =
     poll h t (c + 1) scr (deliver k (deliver n s))
       (tr @ [FetchManifestCall h (abortController s),
              SleepCall (1000 * (c + 1)) (abortController (deliver n s))])"
  by (simp add: poll.simps [of h t c "(n, Manifest m) # (k, Slept) # scr"])

lemma poll_deployed_only_if:
  "poll h t c scr s tr = Some (Deployed, s', scr', tr') \<Longrightarrow>
   \<exists>n m. (n, Manifest m) \<in> set scr \<and> timeLe t m"
  apply (induction h t c scr s tr rule: poll.induct)
  apply (subst (asm) (2) poll.simps)
  apply (fastforce simp: Let_def await_Some catchBlock_def
           split: if_splits option.splits reply.splits)
  done

text \<open>
  C5. With no newer request pending, a fetched manifest whose time is at least the
  deployment's confirms the deploy at once; one that is older is followed by a sleep of
  1000 ms times the number of fetches made so far, and the loop goes on. The loop
  confirms only when some fetched manifest satisfied the comparison, which is \<open>\<le>\<close>
  on the two times. With manifest reads \<open>a - 1\<close>, \<open>a - 1\<close>, \<open>a\<close> for a deployment
  at \<open>a\<close>, the loop makes exactly three fetches, sleeping 1000 ms and 2000 ms
  between them, and confirms after the third.
\<close>

theorem poll_confirms:
  "pendingDeployCount s \<le> 1 \<Longrightarrow>
   (timeLe t m \<longrightarrow>
      poll h t c ((n, Manifest m) # scr) s tr =
        Some (Deployed, deliver n s, scr,
              tr @ [FetchManifestCall h (abortController s), DeployedMessage h])) \<and>
   (\<not> timeLe t m \<longrightarrow>
      poll h t c ((n, Manifest m) # (k, Slept) # scr) s tr =
        poll h t (c + 1) scr (deliver k (deliver n s))
          (tr @ [FetchManifestCall h (abortController s),
                 SleepCall (1000 * (c + 1)) (abortController (deliver n s))])) \<and>
   (poll h t c scr s tr = Some (Deployed, s', scr', tr') \<longrightarrow>
      (\<exists>j u. (j, Manifest u) \<in> set scr \<and> timeLe t u)) \<and>
   timeLe (Some a) (Some b) = (a \<le> b) \<and>
   poll h (Some a) 0
     [(0, Manifest (Some (a - 1))), (0, Slept), (0, Manifest (Some (a - 1))), (0, Slept),
      (0, Manifest (Some a))] s tr =
     Some (Deployed, s, [],
           tr @ [FetchManifestCall h (abortController s), SleepCall 1000 (abortController s),
                 FetchManifestCall h (abortController s), SleepCall 2000 (abortController s),
                 FetchManifestCall h (abortController s), DeployedMessage h])"
proof -
  assume g: "pendingDeployCount s \<le> 1"
  have older: "\<not> timeLe (Some a) (Some (a - 1))" and same: "timeLe (Some a) (Some a)"
    by (simp_all add: timeLe_def)
  show ?thesis
    using g poll_deployed_only_if [of h t c scr s tr s' scr' tr']
    by (simp add: poll_sleep [OF _ older] poll_confirm [OF _ same] poll_confirm poll_sleep)
       (simp add: timeLe_def)
qed

theorem poll_confirms_witness:
  "pendingDeployCount inFlight \<le> 1 \<and>
   poll ''example.com'' (Some 100) 0
     [(0, Manifest (Some 99)), (0, Slept), (0, Manifest (Some 99)), (0, Slept),
      (0, Manifest (Some 100))] inFlight [] =
     Some (Deployed, inFlight, [],
           [FetchManifestCall ''example.com'' 0, SleepCall 1000 0,
            FetchManifestCall ''example.com'' 0, SleepCall 2000 0,
            FetchManifestCall ''example.com'' 0, DeployedMessage ''example.com''])"
proof -
  have g: "pendingDeployCount inFlight \<le> 1" and c: "abortController inFlight = 0"
    by (simp_all add: inFlight_def initialState_def)
  show ?thesis
    using g poll_confirms [OF g, where a = 100 and h = "''example.com''" and tr = "[]"]
    by (simp add: c)
qed

section \<open>The orchestrator: the results\<close>

lemma uploadStage_guard:
  "1 \<le> pendingDeployCount s \<Longrightarrow> 1 \<le> n \<Longrightarrow>
   uploadStage h c a ((n, Patched t) # scr) s tr =
     Some (Superseded, deliver n s, scr, tr @ [PatchSiteCall h c a (abortController s)])"
  by (simp add: uploadStage_def)

lemma attempt_guard:
  "1 \<le> pendingDeployCount s \<Longrightarrow> 1 \<le> n \<Longrightarrow>
   attempt p ((n, Bundled c ex) # scr) s = Some (Superseded, deliver n s, scr, [BundleConfig p])"
  by (simp add: attempt_def)

lemma attempt_upload_only_if:
  "1 \<le> pendingDeployCount s \<Longrightarrow> attempt p scr s = Some (out, s', scr', tr) \<Longrightarrow>
   PatchSiteCall h c a k \<in> set tr \<Longrightarrow> \<exists>c' ex scr1. scr = (0, Bundled c' ex) # scr1"
  by (cases scr)
     (auto simp: attempt_def Let_def split: reply.splits if_splits)

text \<open>
  C1, as amended. While an attempt is in flight, the counter is checked after the
  configuration has been bundled (before it is evaluated and the analysis assembled),
  after the upload call has returned (before polling), and before each fetch of the
  polling loop; when it is above 1 the attempt ends without an error. A \<^verbatim>\<open>change\<close>
  event that arrives while the configuration is bundled is therefore discarded before
  the upload: an attempt calls \<^verbatim>\<open>patchSite\<close> only when no event arrived during
  bundling.
\<close>

theorem deploy_guards:
  "1 \<le> pendingDeployCount s \<Longrightarrow>
   (1 \<le> n \<longrightarrow>
      attempt p ((n, Bundled c ex) # scr) s =
        Some (Superseded, deliver n s, scr, [BundleConfig p])) \<and>
   (attempt p scr s = Some (out, s', scr', tr) \<and> PatchSiteCall h c a k \<in> set tr \<longrightarrow>
      (\<exists>c' ex' scr1. scr = (0, Bundled c' ex') # scr1)) \<and>
   (1 \<le> n \<longrightarrow>
      uploadStage h c a ((n, Patched t) # scr) s tr =
        Some (Superseded, deliver n s, scr, tr @ [PatchSiteCall h c a (abortController s)])) \<and>
   (1 \<le> n \<longrightarrow>
      poll h t cnt scr (deliver n s) tr = Some (Superseded, deliver n s, scr, tr))"
  using attempt_upload_only_if [of s p scr out s' scr' tr h c a k]
  by (simp add: attempt_guard uploadStage_guard poll_guard)

theorem deploy_guards_witness:
  "1 \<le> pendingDeployCount inFlight \<and>
   attempt ''outsmartly.config.js'' [(1, Bundled ''cfg'' sampleExport)] inFlight =
     Some (Superseded,
           \<lparr>pendingDeployCount = 2, abortController = 1, abortedControllers = [0]\<rparr>, [],
           [BundleConfig ''outsmartly.config.js'']) \<and>
   uploadStage ''example.com'' ''cfg'' sampleAnalysis [(1, Patched (Some 5))] inFlight [] =
     Some (Superseded,
           \<lparr>pendingDeployCount = 2, abortController = 1, abortedControllers = [0]\<rparr>, [],
           [PatchSiteCall ''example.com'' ''cfg'' sampleAnalysis 0])"
proof -
  have g: "1 \<le> pendingDeployCount inFlight" and c: "abortController inFlight = 0"
    and d: "deliver 1 inFlight =
      \<lparr>pendingDeployCount = 2, abortController = 1, abortedControllers = [0]\<rparr>"
    by (simp_all add: inFlight_def initialState_def onChange_def)
  show ?thesis
    using g d c
      deploy_guards [OF g, where n = 1 and p = "''outsmartly.config.js''" and c = "''cfg''"
        and ex = sampleExport and scr = "[]" and h = "''example.com''" and a = sampleAnalysis
        and t = "Some 5" and tr = "[]"]
    by simp
qed

text \<open>
  C1 as stated has a check before the upload, so that an event arriving while the
  analysis is assembled would be discarded before \<^verbatim>\<open>patchSite\<close> is called. There is no
  check between \<^verbatim>\<open>bundleAnalysis\<close> and \<^verbatim>\<open>patchSite\<close>: with one event during assembly
  the attempt still calls \<^verbatim>\<open>patchSite\<close>, with the signal of the fresh controller, and is
  given up only after the call has returned.
\<close>

theorem upload_after_trigger_counterexample:
  "attempt ''outsmartly.config.js''
     [(0, Bundled ''cfg'' sampleExport), (1, Assembled sampleAnalysis), (0, Patched (Some 5))]
     inFlight =
   Some (Superseded,
         \<lparr>pendingDeployCount = 2, abortController = 1, abortedControllers = [0]\<rparr>, [],
         [BundleConfig ''outsmartly.config.js'', BundleAnalysisCall ''./.outsmartly/'',
          PatchSiteCall ''example.com'' ''cfg'' sampleAnalysis 1])"
  by (simp add: attempt_def assembleStage_def uploadStage_def evaluate_def sampleExport_def
        truthy_def render_def inFlight_def initialState_def onChange_def)

lemma deploy_done:
  "attempt p scr s = Some (out, s1, scr1, tr1) \<Longrightarrow> \<not> isFatal out \<Longrightarrow>
   pendingDeployCount s1 \<le> 1 \<Longrightarrow>
   deploy p scr s = Some ([out], s1\<lparr>pendingDeployCount := 0\<rparr>, scr1, tr1)"
  by (simp add: deploy.simps [of p scr s])

lemma deploy_again:
  "attempt p scr s = Some (out, s1, scr1, tr1) \<Longrightarrow> \<not> isFatal out \<Longrightarrow>
   1 < pendingDeployCount s1 \<Longrightarrow>
   deploy p scr s =
     map_option (\<lambda>(outs, s2, scr2, tr2). (out # outs, s2, scr2, tr1 @ tr2))
       (deploy p scr1 (s1\<lparr>pendingDeployCount := 1\<rparr>))"
  by (simp add: deploy.simps [of p scr s] split: option.splits)

text \<open>
  C2. When an attempt ends without a fatal error and the counter is at most 1, the
  counter is set to 0 and \<^verbatim>\<open>deploy\<close> returns. When the counter is above 1, whatever its
  value, it is set to 1 and \<^verbatim>\<open>deploy\<close> runs again from there; if no \<^verbatim>\<open>change\<close> event
  arrives during that second attempt, it is the last one and the counter ends at 0. A
  \<^verbatim>\<open>change\<close> event handled while the counter is 1 makes it 2 and does not start an
  attempt of its own.
\<close>

theorem deploy_retry:
  "(attempt p scr s = Some (out, s1, scr1, tr1) \<and> \<not> isFatal out \<and>
    pendingDeployCount s1 \<le> 1 \<longrightarrow>
      deploy p scr s = Some ([out], s1\<lparr>pendingDeployCount := 0\<rparr>, scr1, tr1)) \<and>
   (attempt p scr s = Some (out, s1, scr1, tr1) \<and> \<not> isFatal out \<and>
    1 < pendingDeployCount s1 \<longrightarrow>
      deploy p scr s =
        map_option (\<lambda>(outs, s2, scr2, tr2). (out # outs, s2, scr2, tr1 @ tr2))
          (deploy p scr1 (s1\<lparr>pendingDeployCount := 1\<rparr>))) \<and>
   (attempt p scr s = Some (out, s1, scr1, tr1) \<and> \<not> isFatal out \<and>
    1 < pendingDeployCount s1 \<and>
    attempt p scr1 (s1\<lparr>pendingDeployCount := 1\<rparr>) = Some (out2, s2, scr2, tr2) \<and>
    \<not> isFatal out2 \<and> scr1 = pre @ scr2 \<and> sum_list (map fst pre) = 0 \<longrightarrow>
      deploy p scr s = Some ([out, out2], s2\<lparr>pendingDeployCount := 0\<rparr>, scr2, tr1 @ tr2)) \<and>
   (pendingDeployCount s = 1 \<longrightarrow>
      pendingDeployCount (fst (onChange s)) = 2 \<and> \<not> snd (onChange s))"
proof (intro conjI impI)
  assume "attempt p scr s = Some (out, s1, scr1, tr1) \<and> \<not> isFatal out \<and>
    1 < pendingDeployCount s1 \<and>
    attempt p scr1 (s1\<lparr>pendingDeployCount := 1\<rparr>) = Some (out2, s2, scr2, tr2) \<and>
    \<not> isFatal out2 \<and> scr1 = pre @ scr2 \<and> sum_list (map fst pre) = 0"
  then have A1: "attempt p scr s = Some (out, s1, scr1, tr1)"
    and NF: "\<not> isFatal out" and G: "1 < pendingDeployCount s1"
    and A2: "attempt p scr1 (s1\<lparr>pendingDeployCount := 1\<rparr>) = Some (out2, s2, scr2, tr2)"
    and NF2: "\<not> isFatal out2" and PRE: "scr1 = pre @ scr2"
    and Z: "sum_list (map fst pre) = 0"
    by blast+
  from attempt_conserves [OF A2] PRE Z have "pendingDeployCount s2 \<le> 1" by simp
  from deploy_done [OF A2 NF2 this]
  show "deploy p scr s = Some ([out, out2], s2\<lparr>pendingDeployCount := 0\<rparr>, scr2, tr1 @ tr2)"
    unfolding deploy_again [OF A1 NF G] by simp
qed (simp_all add: deploy_done deploy_again onChange_def)

theorem deploy_retry_witness:
  "run ''outsmartly.config.js'' retryScript initialState =
     Some ([Superseded, Deployed],
           \<lparr>pendingDeployCount = 0, abortController = 1, abortedControllers = [0]\<rparr>, [],
           [BundleConfig ''outsmartly.config.js''] @ secondAttempt)"
proof -
  let ?s1 = "\<lparr>pendingDeployCount = 2, abortController = 1, abortedControllers = [0]\<rparr>"
  let ?s2 = "\<lparr>pendingDeployCount = 1, abortController = 1, abortedControllers = [0]\<rparr>"
  have r: "run ''outsmartly.config.js'' retryScript initialState =
      deploy ''outsmartly.config.js'' retryScript inFlight"
    by (simp add: run_def inFlight_def initialState_def)
  have a1: "attempt ''outsmartly.config.js'' retryScript inFlight =
      Some (Superseded, ?s1, tl retryScript, [BundleConfig ''outsmartly.config.js''])"
    by (simp add: attempt_def retryScript_def inFlight_def initialState_def onChange_def)
  have a2: "attempt ''outsmartly.config.js'' (tl retryScript) (?s1\<lparr>pendingDeployCount := 1\<rparr>) =
      Some (Deployed, ?s2, [], secondAttempt)"
    by (simp add: attempt_def assembleStage_def uploadStage_def evaluate_def sampleExport_def
          truthy_def render_def poll_confirm timeLe_def retryScript_def secondAttempt_def)
  show ?thesis
    unfolding r
    using deploy_retry [where p = "''outsmartly.config.js''" and scr = retryScript and s = inFlight
        and out = Superseded and ?s1.0 = ?s1 and ?scr1.0 = "tl retryScript"
        and ?tr1.0 = "[BundleConfig ''outsmartly.config.js'']"
        and ?out2.0 = Deployed and ?s2.0 = ?s2 and ?scr2.0 = "[]"
        and ?tr2.0 = secondAttempt and pre = "tl retryScript",
        THEN conjunct2, THEN conjunct2, THEN conjunct1] a1 a2
    by (simp add: isFatal_def retryScript_def)
qed

end
